theory Spec2Isabelle
  imports Complex_Main "HOL-Library.Multiset"
begin

section \<open>ControlDozor.createListOfBatches\<close>

text \<open>
  The loop of \<^verbatim>\<open>createListOfBatches\<close> keeps four variables: the batches closed so
  far, the batch being filled, the number of images in it and the image number that
  would continue it (\<^verbatim>\<open>None\<close> before the first image and after a batch of size one
  has been closed).  Image numbers are Python integers.
\<close>

record batch_state =
  listAllBatches :: "int list list"
  listImagesInBatch :: "int list"
  indexBatch :: int
  indexNextImageInBatch :: "int option"

definition batch_init :: batch_state where
  "batch_init =
     \<lparr>listAllBatches = [], listImagesInBatch = [], indexBatch = 0,
      indexNextImageInBatch = None\<rparr>"

text \<open>One iteration of \<^verbatim>\<open>for imageNo in listImageSorted\<close>, the three branches in
  the order of the source.\<close>

definition batch_step :: "int \<Rightarrow> batch_state \<Rightarrow> int \<Rightarrow> batch_state" where
  "batch_step batchSize s imageNo =
     (case indexNextImageInBatch s of
        None \<Rightarrow>
          (let s1 = s\<lparr>indexBatch := 1,
                      indexNextImageInBatch := Some (imageNo + 1),
                      listImagesInBatch := listImagesInBatch s @ [imageNo]\<rparr>
           in if batchSize = 1
              then s1\<lparr>listAllBatches := listAllBatches s1 @ [listImagesInBatch s1],
                      listImagesInBatch := [],
                      indexNextImageInBatch := None\<rparr>
              else s1)
      | Some nxt \<Rightarrow>
          if imageNo \<noteq> nxt \<or> indexBatch s = batchSize
          then s\<lparr>indexBatch := 1,
                  listAllBatches := listAllBatches s @ [listImagesInBatch s],
                  listImagesInBatch := [imageNo],
                  indexNextImageInBatch := Some (imageNo + 1)\<rparr>
          else s\<lparr>listImagesInBatch := listImagesInBatch s @ [imageNo],
                  indexNextImageInBatch := Some (nxt + 1),
                  indexBatch := indexBatch s + 1\<rparr>)"

definition batch_loop :: "int \<Rightarrow> batch_state \<Rightarrow> int list \<Rightarrow> batch_state" where
  "batch_loop batchSize s listImageSorted = foldl (batch_step batchSize) s listImageSorted"

text \<open>After the loop: the batch in progress is closed when it is not empty.\<close>

definition batch_finish :: "batch_state \<Rightarrow> int list list" where
  "batch_finish s =
     (if listImagesInBatch s \<noteq> [] then listAllBatches s @ [listImagesInBatch s]
      else listAllBatches s)"

text \<open>The overlap branch: every image number becomes a batch of its own.\<close>

definition split_batches :: "int list list \<Rightarrow> int list list" where
  "split_batches bs = concat (map (map (\<lambda>batch. [batch])) bs)"

definition createListOfBatches :: "int list \<Rightarrow> int \<Rightarrow> bool \<Rightarrow> int list list" where
  "createListOfBatches listImage batchSize overlap =
     (let listAllBatches = batch_finish (batch_loop batchSize batch_init (sort listImage))
      in if overlap then split_batches listAllBatches else listAllBatches)"

text \<open>A run: consecutive elements differ by exactly one.\<close>

fun contiguous :: "int list \<Rightarrow> bool" where
  "contiguous (x # y # ys) = (y = x + 1 \<and> contiguous (y # ys))"
| "contiguous _ = True"

text \<open>The loop invariant: what every closed batch and the open batch satisfy.\<close>

definition batch_ok :: "int \<Rightarrow> int list \<Rightarrow> bool" where
  "batch_ok batchSize b = (b \<noteq> [] \<and> contiguous b \<and> int (length b) \<le> batchSize)"

definition batch_inv :: "int \<Rightarrow> batch_state \<Rightarrow> bool" where
  "batch_inv batchSize s =
     ((\<forall>b \<in> set (listAllBatches s). batch_ok batchSize b) \<and>
      (case indexNextImageInBatch s of
         None \<Rightarrow> listImagesInBatch s = []
       | Some nxt \<Rightarrow>
           batch_ok batchSize (listImagesInBatch s) \<and>
           nxt = last (listImagesInBatch s) + 1 \<and>
           indexBatch s = int (length (listImagesInBatch s))))"

text \<open>The batches, closed and open, always spell out the images read so far.\<close>

definition batch_content :: "batch_state \<Rightarrow> int list" where
  "batch_content s = concat (listAllBatches s) @ listImagesInBatch s"

section \<open>Python strings\<close>

text \<open>
  A Python \<^verbatim>\<open>str\<close> is modelled as a list of characters with code points below 256.
  \<open>isspace\<close> is \<^verbatim>\<open>str.isspace\<close> on one such character, the separator set of
  \<^verbatim>\<open>str.split()\<close> and \<^verbatim>\<open>str.strip()\<close>.
\<close>

definition isspace :: "char \<Rightarrow> bool" where
  "isspace c =
     (c \<in> set [CHR 0x09, CHR 0x0A, CHR 0x0B, CHR 0x0C, CHR 0x0D, CHR 0x1C, CHR 0x1D,
                CHR 0x1E, CHR 0x1F, CHR 0x20, CHR 0x85, CHR 0xA0])"

definition startswith :: "string \<Rightarrow> string \<Rightarrow> bool" where
  "startswith s pre = (take (length pre) s = pre)"

definition endswith :: "string \<Rightarrow> string \<Rightarrow> bool" where
  "endswith s suf = (length suf \<le> length s \<and> drop (length s - length suf) s = suf)"

text \<open>\<^verbatim>\<open>s.split(sep)\<close> for a separator of one character: never an empty list.\<close>

fun split_char :: "char \<Rightarrow> string \<Rightarrow> string list" where
  "split_char sep [] = [[]]"
| "split_char sep (c # cs) =
     (if c = sep then [] # split_char sep cs
      else (case split_char sep cs of
              [] \<Rightarrow> [[c]]
            | w # ws \<Rightarrow> (c # w) # ws))"

text \<open>\<^verbatim>\<open>s.split()\<close>: maximal runs of characters that are not white space.\<close>

fun split_ws_from :: "string \<Rightarrow> string \<Rightarrow> string list" where
  "split_ws_from cur [] = (if cur = [] then [] else [cur])"
| "split_ws_from cur (c # cs) =
     (if isspace c then (if cur = [] then split_ws_from [] cs else cur # split_ws_from [] cs)
      else split_ws_from (cur @ [c]) cs)"

definition split_ws :: "string \<Rightarrow> string list" where
  "split_ws s = split_ws_from [] s"

definition strip :: "string \<Rightarrow> string" where
  "strip s = rev (dropWhile isspace (rev (dropWhile isspace s)))"

text \<open>\<^verbatim>\<open>s.replace(a, b)\<close> for single characters, and \<^verbatim>\<open>s.replace(a, "")\<close>.\<close>

definition replace_char :: "char \<Rightarrow> char \<Rightarrow> string \<Rightarrow> string" where
  "replace_char a b s = map (\<lambda>c. if c = a then b else c) s"

definition remove_char :: "char \<Rightarrow> string \<Rightarrow> string" where
  "remove_char a s = filter (\<lambda>c. c \<noteq> a) s"

text \<open>
  \<^verbatim>\<open>str.isdigit\<close>: besides the ten decimal digits, the superscripts one, two and
  three (code points B9, B2, B3) are digits for \<^verbatim>\<open>isdigit\<close>, and not for
  \<^verbatim>\<open>int\<close>.
\<close>

definition is_decimal :: "char \<Rightarrow> bool" where
  "is_decimal c = (c \<in> set ''0123456789'')"

definition digit_val :: "char \<Rightarrow> nat" where
  "digit_val c = of_char c - 48"

definition isdigit :: "string \<Rightarrow> bool" where
  "isdigit s =
     (s \<noteq> [] \<and> list_all (\<lambda>c. is_decimal c \<or> c \<in> set [CHR 0xB2, CHR 0xB3, CHR 0xB9]) s)"

text \<open>
  The conversions \<^verbatim>\<open>int(s)\<close> and \<^verbatim>\<open>float(s)\<close> are parameters of the decoders
  below: functions from strings to \<open>int option\<close> and \<open>real option\<close>, with \<open>None\<close> for
  the \<^verbatim>\<open>ValueError\<close>.  The theorems about the decoders hold for every such pair of
  functions.  Floating-point values are idealised as reals: a theorem says which token
  a field is converted from, or which expression the code evaluates, and nothing about
  rounding; the infinities and \<^verbatim>\<open>nan\<close> have no counterpart.

  On concrete inputs the two instances below are used.  \<open>int_literal\<close> is \<^verbatim>\<open>int\<close> on
  a string: white space stripped, an optional sign, then decimal digits with single
  underscores between them (the limit that recent interpreters put on the number of
  digits is not modelled).  \<open>float_decimal\<close> is \<^verbatim>\<open>float\<close> on the plain decimal
  literals only (white space, an optional sign, digits, an optional point and digits);
  it does not read exponents, underscores, \<^verbatim>\<open>inf\<close> or \<^verbatim>\<open>nan\<close>.  The examples use
  tokens that both read as Python does, with values that binary floating point
  represents exactly.
\<close>

fun int_body :: "bool \<Rightarrow> nat \<Rightarrow> string \<Rightarrow> nat option" where
  "int_body prev acc [] = (if prev then Some acc else None)"
| "int_body prev acc (c # cs) =
     (if is_decimal c then int_body True (10 * acc + digit_val c) cs
      else if c = CHR ''_'' \<and> prev then int_body False acc cs
      else None)"

definition int_literal :: "string \<Rightarrow> int option" where
  "int_literal s =
     (case strip s of
        [] \<Rightarrow> None
      | c # cs \<Rightarrow>
          if c = CHR ''-'' then map_option (\<lambda>n. - int n) (int_body False 0 cs)
          else if c = CHR ''+'' then map_option int (int_body False 0 cs)
          else map_option int (int_body False 0 (c # cs)))"

fun nat_of_digits :: "nat \<Rightarrow> string \<Rightarrow> nat" where
  "nat_of_digits acc [] = acc"
| "nat_of_digits acc (c # cs) = nat_of_digits (10 * acc + digit_val c) cs"

definition unsigned_decimal :: "string \<Rightarrow> real option" where
  "unsigned_decimal u =
     (let ip = takeWhile is_decimal u; rest = dropWhile is_decimal u
      in case rest of
           [] \<Rightarrow> if ip = [] then None else Some (real (nat_of_digits 0 ip))
         | c # fp \<Rightarrow>
             if c = CHR ''.'' \<and> list_all is_decimal fp \<and> (ip \<noteq> [] \<or> fp \<noteq> [])
             then Some (real (nat_of_digits 0 (ip @ fp)) / 10 ^ length fp)
             else None)"

definition float_decimal :: "string \<Rightarrow> real option" where
  "float_decimal s =
     (case strip s of
        [] \<Rightarrow> None
      | c # cs \<Rightarrow>
          if c = CHR ''-'' then map_option uminus (unsigned_decimal cs)
          else if c = CHR ''+'' then unsigned_decimal cs
          else unsigned_decimal (c # cs))"

text \<open>
  The decimal digits of a natural number and zero padding on the left, for the image
  name that a template with four wildcards formats (\<^verbatim>\<open>"{0:04}".format(n)\<close>).
\<close>

fun dec_digits :: "nat \<Rightarrow> string" where
  "dec_digits n =
     (if n < 10 then [''0123456789'' ! n]
      else dec_digits (n div 10) @ [''0123456789'' ! (n mod 10)])"

declare dec_digits.simps [simp del]

definition zero_pad :: "nat \<Rightarrow> string \<Rightarrow> string" where
  "zero_pad w s = replicate (w - length s) (CHR ''0'') @ s"

section \<open>The tokenizer of parseOutput\<close>

text \<open>
  \<^verbatim>\<open>shlex.split(s)\<close>: the POSIX mode of the standard tokenizer with
  \<^verbatim>\<open>whitespace_split\<close> set and comments off.  The states are those of
  \<^verbatim>\<open>read_token\<close>: white space, inside a word, inside a quotation opened by the
  given character, and after a backslash (with the state to return to).  The function
  carries the token read so far and whether a quotation was seen in it.  \<open>None\<close> is
  the \<^verbatim>\<open>ValueError\<close> of an unclosed quotation or a trailing backslash.
\<close>

datatype lex_state = InSpace | InWord | InQuote char | Escaped lex_state

definition shlex_whitespace :: "char \<Rightarrow> bool" where
  "shlex_whitespace c = (c \<in> set [CHR '' '', CHR 0x09, CHR 0x0D, CHR 0x0A])"

definition shlex_quote :: "char \<Rightarrow> bool" where
  "shlex_quote c = (c = CHR 0x27 \<or> c = CHR 0x22)"

definition emit_token :: "string \<Rightarrow> bool \<Rightarrow> string list" where
  "emit_token token quoted = (if token = [] \<and> \<not> quoted then [] else [token])"

fun read_tokens :: "lex_state \<Rightarrow> string \<Rightarrow> bool \<Rightarrow> string \<Rightarrow> string list option" where
  "read_tokens InSpace token quoted [] = Some (emit_token token quoted)"
| "read_tokens InSpace token quoted (c # cs) =
     (if shlex_whitespace c then
        (if token \<noteq> [] \<or> quoted then map_option ((#) token) (read_tokens InSpace [] False cs)
         else read_tokens InSpace token quoted cs)
      else if c = CHR 0x5C then read_tokens (Escaped InWord) token quoted cs
      else if shlex_quote c then read_tokens (InQuote c) token quoted cs
      else read_tokens InWord [c] quoted cs)"
| "read_tokens InWord token quoted [] = Some (emit_token token quoted)"
| "read_tokens InWord token quoted (c # cs) =
     (if shlex_whitespace c then
        (if token \<noteq> [] \<or> quoted then map_option ((#) token) (read_tokens InSpace [] False cs)
         else read_tokens InSpace token quoted cs)
      else if shlex_quote c then read_tokens (InQuote c) token quoted cs
      else if c = CHR 0x5C then read_tokens (Escaped InWord) token quoted cs
      else read_tokens InWord (token @ [c]) quoted cs)"
| "read_tokens (InQuote q) token quoted [] = None"
| "read_tokens (InQuote q) token quoted (c # cs) =
     (if c = q then read_tokens InWord token True cs
      else if c = CHR 0x5C \<and> q = CHR 0x22 then read_tokens (Escaped (InQuote q)) token True cs
      else read_tokens (InQuote q) (token @ [c]) True cs)"
| "read_tokens (Escaped back) token quoted [] = None"
| "read_tokens (Escaped back) token quoted (c # cs) =
     (case back of
        InQuote q \<Rightarrow>
          read_tokens back ((if c \<noteq> CHR 0x5C \<and> c \<noteq> q then token @ [CHR 0x5C] else token) @ [c])
            quoted cs
      | _ \<Rightarrow> read_tokens back (token @ [c]) quoted cs)"

definition shlex_split :: "string \<Rightarrow> string list option" where
  "shlex_split s = read_tokens InSpace [] False s"

section \<open>ExecDozor: starting angle and log decoder\<close>

datatype error = IndexError | KeyError | ValueError | AttributeError

text \<open>
  The values stored in the dictionaries of the decoder: \<^verbatim>\<open>None\<close>, integers, floats
  (idealised as reals) and strings.  A dictionary is a map from keys to values; a key
  that was never assigned is absent.
\<close>

datatype pyval = PNone | PInt int | PFloat real | PStr string

type_synonym pydict = "string \<rightharpoonup> pyval"

text \<open>
  The entries of \<^verbatim>\<open>inData\<close> read by the angle computations.  The schema of ExecDozor
  requires \<^verbatim>\<open>firstImageNumber\<close> and \<^verbatim>\<open>oscillationRange\<close>; \<^verbatim>\<open>startingAngle\<close> and
  \<^verbatim>\<open>overlap\<close> may be absent.
\<close>

record inData =
  startingAngle :: "real option"
  firstImageNumber :: int
  oscillationRange :: real
  overlap :: "real option"


text \<open>\<^verbatim>\<open>parseOutput\<close>: the angle of the image with the given number.\<close>

definition image_angle :: "inData \<Rightarrow> int \<Rightarrow> error + real" where
  "image_angle d imageNumber =
     (let ov = (case overlap d of None \<Rightarrow> 0 | Some v \<Rightarrow> v)
      in case startingAngle d of
           None \<Rightarrow> Inl KeyError
         | Some sa \<Rightarrow>
             Inr (sa + real_of_int (imageNumber - firstImageNumber d) * (oscillationRange d - ov)
                  + oscillationRange d / 2))"

text \<open>
  What \<^verbatim>\<open>parseOutput\<close> takes from outside the log: \<^verbatim>\<open>int\<close> and \<^verbatim>\<open>float\<close>, the image
  name that the prepared template formats for an image number (an error when
  \<^verbatim>\<open>str.format\<close> raises), and the path of the spot file of an image number when a
  working directory is given and the file exists.
\<close>

record dozor_env =
  py_int :: "string \<Rightarrow> int option"
  py_float :: "string \<Rightarrow> real option"
  image_name :: "int \<Rightarrow> error + string"
  spot_file :: "int \<Rightarrow> string option"

record resultDozor =
  imageDozor :: "pydict list"
  halfDoseTime :: "string option"

definition parseDouble :: "(string \<Rightarrow> real option) \<Rightarrow> string \<Rightarrow> pyval" where
  "parseDouble pf v = (case pf v of None \<Rightarrow> PNone | Some x \<Rightarrow> PFloat x)"

text \<open>
  The assignments of the two branches of the \<^verbatim>\<open>try\<close> block, in source order: the
  key, the conversion and the token index.  The keys of the R-factor differ in the two
  branches (\<^verbatim>\<open>spotsRFactor\<close>, \<^verbatim>\<open>spotsRfactor\<close>).
\<close>

datatype conv = ConvInt | ConvDouble

definition short_layout :: "(string \<times> conv \<times> nat) list" where
  "short_layout =
     [(''spotsNumOf'', ConvInt, 1), (''spotsIntAver'', ConvDouble, 2),
      (''spotsRFactor'', ConvDouble, 3), (''spotsResolution'', ConvDouble, 4),
      (''mainScore'', ConvDouble, 8), (''spotScore'', ConvDouble, 9),
      (''visibleResolution'', ConvDouble, 10)]"

definition extended_layout :: "(string \<times> conv \<times> nat) list" where
  "extended_layout =
     [(''spotsNumOf'', ConvInt, 1), (''spotsIntAver'', ConvDouble, 2),
      (''spotsRfactor'', ConvDouble, 3), (''spotsResolution'', ConvDouble, 4),
      (''powderWilsonScale'', ConvDouble, 5), (''powderWilsonBfactor'', ConvDouble, 6),
      (''powderWilsonResolution'', ConvDouble, 7),
      (''powderWilsonCorrelation'', ConvDouble, 8),
      (''powderWilsonRfactor'', ConvDouble, 9), (''mainScore'', ConvDouble, 10),
      (''spotScore'', ConvDouble, 11), (''visibleResolution'', ConvDouble, 12)]"

text \<open>
  The assignments run in order.  A token index out of range (\<^verbatim>\<open>IndexError\<close>) or a
  spot count that \<^verbatim>\<open>int\<close> rejects (\<^verbatim>\<open>ValueError\<close>) leaves the \<^verbatim>\<open>try\<close> block: the
  exception is caught and logged, the fields assigned so far stay, the others keep what
  they had.  \<^verbatim>\<open>parseDouble\<close> catches its own exception and yields \<^verbatim>\<open>None\<close>.
\<close>

definition conv_value :: "dozor_env \<Rightarrow> conv \<Rightarrow> string \<Rightarrow> pyval option" where
  "conv_value env c tok =
     (case c of
        ConvInt \<Rightarrow> map_option PInt (py_int env tok)
      | ConvDouble \<Rightarrow> Some (parseDouble (py_float env) tok))"

fun assign_fields ::
  "dozor_env \<Rightarrow> string list \<Rightarrow> (string \<times> conv \<times> nat) list \<Rightarrow> pydict \<Rightarrow> pydict" where
  "assign_fields env listLine [] d = d"
| "assign_fields env listLine ((key, c, i) # rest) d =
     (if length listLine \<le> i then d
      else (case conv_value env c (listLine ! i) of
              None \<Rightarrow> d
            | Some v \<Rightarrow> assign_fields env listLine rest (d(key \<mapsto> v))))"

text \<open>
  The \<^verbatim>\<open>try\<close> block.  The condition reads \<^verbatim>\<open>listLine[5]\<close> before it compares the
  length, so a row of fewer than six tokens leaves the block at once.
\<close>

definition layout_of :: "string list \<Rightarrow> (string \<times> conv \<times> nat) list" where
  "layout_of listLine =
     (if startswith (listLine ! 5) ''-'' \<or> length listLine < 11 then short_layout
      else extended_layout)"

definition parse_fields :: "dozor_env \<Rightarrow> string list \<Rightarrow> pydict \<Rightarrow> pydict" where
  "parse_fields env listLine d =
     (if length listLine \<le> 5 then d
      else assign_fields env listLine (layout_of listLine) d)"

text \<open>The record of a row before the \<^verbatim>\<open>try\<close> block; \<open>first\<close> is \<^verbatim>\<open>listLine[0]\<close>.\<close>

definition row_header :: "dozor_env \<Rightarrow> inData \<Rightarrow> string \<Rightarrow> error + pydict" where
  "row_header env d first =
     (case py_int env first of
        None \<Rightarrow> Inl ValueError
      | Some imageNumber \<Rightarrow>
          (case image_angle d imageNumber of
             Inl e \<Rightarrow> Inl e
           | Inr angle \<Rightarrow>
               (case image_name env imageNumber of
                  Inl e \<Rightarrow> Inl e
                | Inr imageStr \<Rightarrow>
                    Inr [''number'' \<mapsto> PInt imageNumber, ''image'' \<mapsto> PStr imageStr,
                         ''angle'' \<mapsto> PFloat angle, ''spotsNumOf'' \<mapsto> PNone,
                         ''spotsIntAver'' \<mapsto> PNone, ''spotsResolution'' \<mapsto> PNone,
                         ''mainScore'' \<mapsto> PNone, ''spotScore'' \<mapsto> PNone,
                         ''visibleResolution'' \<mapsto> PInt 40])))"

definition attach_spot_file :: "dozor_env \<Rightarrow> pydict \<Rightarrow> pydict" where
  "attach_spot_file env d =
     (case d ''number'' of
        Some (PInt n) \<Rightarrow>
          (case spot_file env n of None \<Rightarrow> d | Some p \<Rightarrow> d(''spotFile'' \<mapsto> PStr p))
      | _ \<Rightarrow> d)"

definition parse_row :: "dozor_env \<Rightarrow> inData \<Rightarrow> string list \<Rightarrow> error + pydict" where
  "parse_row env d listLine =
     (case row_header env d (hd listLine) of
        Inl e \<Rightarrow> Inl e
      | Inr r \<Rightarrow> Inr (attach_spot_file env (parse_fields env listLine r)))"

text \<open>\<^verbatim>\<open>line.split("=")[1].split()[0]\<close>, the value stored under \<^verbatim>\<open>halfDoseTime\<close>.\<close>

definition half_dose_time :: "string \<Rightarrow> error + string" where
  "half_dose_time line =
     (case split_char (CHR ''='') line of
        _ # rest # _ \<Rightarrow> (case split_ws rest of [] \<Rightarrow> Inl IndexError | v # _ \<Rightarrow> Inr v)
      | _ \<Rightarrow> Inl IndexError)"

text \<open>One iteration of \<^verbatim>\<open>for line in listOutput\<close>.\<close>

definition parse_line :: "dozor_env \<Rightarrow> inData \<Rightarrow> resultDozor \<Rightarrow> string \<Rightarrow> error + resultDozor" where
  "parse_line env d res line =
     (case shlex_split (replace_char (CHR ''|'') (CHR '' '') line) of
        None \<Rightarrow> Inl ValueError
      | Some listLine \<Rightarrow>
          if listLine \<noteq> [] \<and> isdigit (hd listLine) then
            (case parse_row env d listLine of
               Inl e \<Rightarrow> Inl e
             | Inr r \<Rightarrow> Inr (res\<lparr>imageDozor := imageDozor res @ [r]\<rparr>))
          else if startswith line ''h'' then
            (case half_dose_time line of
               Inl e \<Rightarrow> Inl e
             | Inr v \<Rightarrow> Inr (res\<lparr>halfDoseTime := Some v\<rparr>))
          else Inr res)"

fun parse_lines :: "dozor_env \<Rightarrow> inData \<Rightarrow> resultDozor \<Rightarrow> string list \<Rightarrow> error + resultDozor" where
  "parse_lines env d res [] = Inr res"
| "parse_lines env d res (line # listOutput) =
     (case parse_line env d res line of
        Inl e \<Rightarrow> Inl e
      | Inr res' \<Rightarrow> parse_lines env d res' listOutput)"

text \<open>
  \<^verbatim>\<open>parseOutput\<close> up to the end of the loop over the lines: the first six lines of the
  log are skipped.  (What follows in the source reads the plot file of the working
  directory and concatenates files; it adds nothing when there is no plot file and
  \<^verbatim>\<open>doDozorM\<close> is off.)
\<close>

definition parseOutput :: "dozor_env \<Rightarrow> inData \<Rightarrow> string \<Rightarrow> error + resultDozor" where
  "parseOutput env d output =
     parse_lines env d \<lparr>imageDozor = [], halfDoseTime = None\<rparr>
       (drop 6 (split_char (CHR 0x0A) output))"


text \<open>
  The result after decoding further lines: their records are appended, and a later
  \<^verbatim>\<open>halfDoseTime\<close> replaces an earlier one.
\<close>

definition append_result :: "resultDozor \<Rightarrow> resultDozor \<Rightarrow> resultDozor" where
  "append_result res r =
     res\<lparr>imageDozor := imageDozor res @ imageDozor r,
         halfDoseTime := (case halfDoseTime r of None \<Rightarrow> halfDoseTime res | Some v \<Rightarrow> Some v)\<rparr>"

definition empty_result :: resultDozor where
  "empty_result = \<lparr>imageDozor = [], halfDoseTime = None\<rparr>"

section \<open>ExecDozor.generatePngPlots: the plot parser\<close>

text \<open>
  The first loop of \<^verbatim>\<open>generatePngPlots\<close> builds dictionaries and lists that several
  variables refer to: \<^verbatim>\<open>dictPlotList\<close> is the list stored under \<^verbatim>\<open>plotList\<close> in the
  current plot, and \<^verbatim>\<open>dictSubPlot\<close> stays the last subplot opened, also after a new
  block has begun.  The model keeps the dictionaries and the lists of dictionaries in a
  store, by address; the variables hold addresses.  A value of a dictionary is a
  string, a list of floats, or the address of a list of dictionaries.
\<close>

datatype plotval = VStr string | VFloats "real list" | VList nat

type_synonym plotdict = "string \<rightharpoonup> plotval"

record plot_state =
  dicts :: "plotdict list"
  plists :: "nat list list"
  listPlots :: "nat list"
  dictPlotList :: nat
  dictSubPlot :: nat

text \<open>
  Before the loop \<^verbatim>\<open>listPlots\<close> is empty, \<^verbatim>\<open>dictPlotList\<close> is an empty list (the list
  at address 0) and \<^verbatim>\<open>dictSubPlot\<close> an empty dictionary (the dictionary at address 0).
\<close>

definition plot_init :: plot_state where
  "plot_init =
     \<lparr>dicts = [Map.empty], plists = [[]], listPlots = [], dictPlotList = 0, dictSubPlot = 0\<rparr>"

text \<open>\<^verbatim>\<open>xs[1]\<close>.\<close>

definition second :: "'a list \<Rightarrow> error + 'a" where
  "second xs = (case xs of a # b # rest \<Rightarrow> Inr b | _ \<Rightarrow> Inl IndexError)"

text \<open>An attribute line: the label and the value that are stored.\<close>

definition attribute :: "string \<Rightarrow> error + (string \<times> string)" where
  "attribute line =
     (case split_char (CHR ''='') line of
        k # v # rest \<Rightarrow>
          (case (if CHR 0x27 \<in> set v then second (split_char (CHR 0x27) v) else Inr v) of
             Inl e \<Rightarrow> Inl e
           | Inr val \<Rightarrow> Inr (strip (drop 1 k), strip (remove_char (CHR 0x0A) val)))
      | _ \<Rightarrow> Inl IndexError)"

text \<open>
  \<^verbatim>\<open>while listLines[index].startswith("%")\<close> on the lines from \<^verbatim>\<open>index\<close> on: the number
  of attribute lines read and the dictionary with the attributes stored.  Reading past
  the last line is an \<^verbatim>\<open>IndexError\<close>.
\<close>

fun read_attrs :: "string list \<Rightarrow> plotdict \<Rightarrow> error + (nat \<times> plotdict)" where
  "read_attrs [] d = Inl IndexError"
| "read_attrs (line # rest) d =
     (if startswith line ''%'' then
        (case attribute line of
           Inl e \<Rightarrow> Inl e
         | Inr (label, v) \<Rightarrow>
             (case read_attrs rest (d(label \<mapsto> VStr v)) of
                Inl e \<Rightarrow> Inl e
              | Inr (n, d') \<Rightarrow> Inr (Suc n, d')))
      else Inr (0, d))"

text \<open>A data row: one float appended to \<^verbatim>\<open>xValues\<close>, then one to \<^verbatim>\<open>yValues\<close>.\<close>

definition append_float ::
  "(string \<Rightarrow> real option) \<Rightarrow> string \<Rightarrow> error + string \<Rightarrow> plotdict \<Rightarrow> error + plotdict" where
  "append_float pf key tok d =
     (case d key of
        None \<Rightarrow> Inl KeyError
      | Some (VFloats vs) \<Rightarrow>
          (case tok of
             Inl e \<Rightarrow> Inl e
           | Inr t \<Rightarrow>
               (case pf t of
                  None \<Rightarrow> Inl ValueError
                | Some v \<Rightarrow> Inr (d(key \<mapsto> VFloats (vs @ [v])))))
      | Some _ \<Rightarrow> Inl AttributeError)"

definition append_data :: "(string \<Rightarrow> real option) \<Rightarrow> string \<Rightarrow> plotdict \<Rightarrow> error + plotdict" where
  "append_data pf line d =
     (let listData = split_ws (remove_char (CHR 0x0A) line)
      in case append_float pf ''xValues''
                (case listData of [] \<Rightarrow> Inl IndexError | x # rest \<Rightarrow> Inr x) d of
           Inl e \<Rightarrow> Inl e
         | Inr d' \<Rightarrow> append_float pf ''yValues'' (second listData) d')"

text \<open>
  The loop \<^verbatim>\<open>while index < len(listLines)\<close>, with \<^verbatim>\<open>float\<close> as a parameter.  The store
  is written when a block is complete; an exception inside a block ends the function,
  so that the dictionary under construction is never seen.
\<close>

function plot_loop ::
  "(string \<Rightarrow> real option) \<Rightarrow> string list \<Rightarrow> nat \<Rightarrow> plot_state \<Rightarrow> error + plot_state" where
  "plot_loop pf listLines index s =
     (if index < length listLines then
        (if startswith (listLines ! index) ''$'' then
           (if Suc index < length listLines then
              (case second (split_char (CHR 0x27) (listLines ! Suc index)) of
                 Inl e \<Rightarrow> Inl e
               | Inr name \<Rightarrow>
                   (case read_attrs (drop (index + 2) listLines)
                           [''plotList'' \<mapsto> VList (length (plists s)), ''name'' \<mapsto> VStr name] of
                      Inl e \<Rightarrow> Inl e
                    | Inr (n, dictPlot) \<Rightarrow>
                        plot_loop pf listLines (index + 2 + n)
                          (s\<lparr>dicts := dicts s @ [dictPlot],
                             plists := plists s @ [[]],
                             listPlots := listPlots s @ [length (dicts s)],
                             dictPlotList := length (plists s)\<rparr>)))
            else Inl IndexError)
         else if startswith (listLines ! index) ''#'' then
           (case second (split_char (CHR ''#'') (listLines ! index)) of
              Inl e \<Rightarrow> Inl e
            | Inr plotName \<Rightarrow>
                (case read_attrs (drop (index + 1) listLines)
                        [''name'' \<mapsto> VStr (strip (remove_char (CHR 0x0A) plotName))] of
                   Inl e \<Rightarrow> Inl e
                 | Inr (n, d) \<Rightarrow>
                     plot_loop pf listLines (index + 1 + n)
                       (s\<lparr>dicts := dicts s @ [d(''xValues'' \<mapsto> VFloats [], ''yValues'' \<mapsto> VFloats [])],
                          plists := (plists s)[dictPlotList s := plists s ! dictPlotList s
                                                                  @ [length (dicts s)]],
                          dictSubPlot := length (dicts s)\<rparr>)))
         else
           (case append_data pf (listLines ! index) (dicts s ! dictSubPlot s) of
              Inl e \<Rightarrow> Inl e
            | Inr d \<Rightarrow>
                plot_loop pf listLines (index + 1)
                  (s\<lparr>dicts := (dicts s)[dictSubPlot s := d]\<rparr>)))
      else Inr s)"
  by pat_completeness auto
termination
  by (relation "measure (\<lambda>(pf, listLines, index, s). length listLines - index)") auto

declare plot_loop.simps [simp del]

text \<open>The plot dictionaries built from the lines of the file (\<^verbatim>\<open>f.readlines()\<close>).\<close>

definition parse_plots :: "(string \<Rightarrow> real option) \<Rightarrow> string list \<Rightarrow> error + plot_state" where
  "parse_plots pf listLines = plot_loop pf listLines 0 plot_init"

text \<open>Reading the result: the plot dictionaries, and the subplots of a plot.\<close>

definition plot_dicts :: "plot_state \<Rightarrow> plotdict list" where
  "plot_dicts s = map (\<lambda>p. dicts s ! p) (listPlots s)"

definition sub_plots :: "plot_state \<Rightarrow> plotdict \<Rightarrow> plotdict list" where
  "sub_plots s plot =
     (case plot ''plotList'' of
        Some (VList q) \<Rightarrow> map (\<lambda>a. dicts s ! a) (plists s ! q)
      | _ \<Rightarrow> [])"

section \<open>ControlDozor.run: the results of the batches\<close>

text \<open>
  \<^verbatim>\<open>ControlDozor.run\<close> calls \<^verbatim>\<open>runDozorTask\<close> on every batch, in the order of the
  list, and appends one dictionary of quality indicators for every record of a batch
  whose execution did not fail.  The execution of ExecDozor on a batch is outside the
  model: \<open>execute_dozor\<close> gives, for a batch, whether the task failed and the records
  of its output.  \<open>imageNumberOrig\<close> is the number in the name of the first image of
  the batch, and \<open>path_exists\<close> is \<^verbatim>\<open>os.path.exists\<close> (which raises on some values that
  are not paths).  The options \<^verbatim>\<open>returnSpotList\<close> and \<^verbatim>\<open>doDozorM\<close> are off.
\<close>

record dozor_outcome =
  isFailure :: bool
  outDataImageDozor :: "pydict list"

record run_env =
  execute_dozor :: "int list \<Rightarrow> dozor_outcome"
  imageNumberOrig :: "int list \<Rightarrow> int"
  path_exists :: "pyval \<Rightarrow> error + bool"

text \<open>\<^verbatim>\<open>a != n\<close> for a value and an integer.\<close>

definition differs_from_int :: "pyval \<Rightarrow> int \<Rightarrow> bool" where
  "differs_from_int v n =
     (case v of PInt m \<Rightarrow> m \<noteq> n | PFloat x \<Rightarrow> x \<noteq> real_of_int n | _ \<Rightarrow> True)"

text \<open>
  The end of \<^verbatim>\<open>runDozorTask\<close>, from \<^verbatim>\<open>dozor.execute()\<close> on: \<open>None\<close> when the task
  failed, else its records, where the number of a single record of an \<^verbatim>\<open>.h5\<close> image is
  set to \<open>imageNumberOrig\<close>.
\<close>

definition runDozorTask :: "run_env \<Rightarrow> int list \<Rightarrow> error + pydict list option" where
  "runDozorTask env listBatch =
     (let dozor = execute_dozor env listBatch
      in if \<not> isFailure dozor then
           (case outDataImageDozor dozor of
              [r] \<Rightarrow>
                (case r ''image'' of
                   None \<Rightarrow> Inl KeyError
                 | Some (PStr s) \<Rightarrow>
                     if endswith s ''.h5'' then
                       (case r ''number'' of
                          None \<Rightarrow> Inl KeyError
                        | Some v \<Rightarrow>
                            if differs_from_int v (imageNumberOrig env listBatch)
                            then Inr (Some [r(''number'' \<mapsto> PInt (imageNumberOrig env listBatch))])
                            else Inr (Some [r]))
                     else Inr (Some [r])
                 | Some _ \<Rightarrow> Inl AttributeError)
            | rs \<Rightarrow> Inr (Some rs))
         else Inr None)"

text \<open>
  The dictionary literal of \<^verbatim>\<open>run\<close>: the key of the indicator and the key of the
  record it is read from, in source order.
\<close>

definition indicator_keys :: "(string \<times> string) list" where
  "indicator_keys =
     [(''angle'', ''angle''), (''number'', ''number''), (''image'', ''image''),
      (''dozorScore'', ''mainScore''), (''dozorSpotScore'', ''spotScore''),
      (''dozorSpotsNumOf'', ''spotsNumOf''), (''dozorSpotsIntAver'', ''spotsIntAver''),
      (''dozorSpotsResolution'', ''spotsResolution''),
      (''dozorVisibleResolution'', ''visibleResolution'')]"

fun copy_fields :: "pydict \<Rightarrow> (string \<times> string) list \<Rightarrow> pydict \<Rightarrow> error + pydict" where
  "copy_fields r [] q = Inr q"
| "copy_fields r ((target, key) # rest) q =
     (case r key of
        None \<Rightarrow> Inl KeyError
      | Some v \<Rightarrow> copy_fields r rest (q(target \<mapsto> v)))"

definition imageQualityIndicators :: "run_env \<Rightarrow> pydict \<Rightarrow> error + pydict" where
  "imageQualityIndicators env r =
     (case copy_fields r indicator_keys Map.empty of
        Inl e \<Rightarrow> Inl e
      | Inr q \<Rightarrow>
          (case r ''spotFile'' of
             None \<Rightarrow> Inr q
           | Some spotFile \<Rightarrow>
               (case path_exists env spotFile of
                  Inl e \<Rightarrow> Inl e
                | Inr ex \<Rightarrow> Inr (if ex then q(''dozorSpotFile'' \<mapsto> spotFile) else q))))"

text \<open>\<^verbatim>\<open>for imageDozor in outDataDozor["imageDozor"]\<close>.\<close>

fun append_indicators :: "run_env \<Rightarrow> pydict list \<Rightarrow> pydict list \<Rightarrow> error + pydict list" where
  "append_indicators env [] acc = Inr acc"
| "append_indicators env (r # rest) acc =
     (case imageQualityIndicators env r of
        Inl e \<Rightarrow> Inl e
      | Inr q \<Rightarrow> append_indicators env rest (acc @ [q]))"

text \<open>\<^verbatim>\<open>for listBatch in listAllBatches\<close>; \<open>acc\<close> is \<^verbatim>\<open>outData["imageQualityIndicators"]\<close>.\<close>

fun run_batches :: "run_env \<Rightarrow> int list list \<Rightarrow> pydict list \<Rightarrow> error + pydict list" where
  "run_batches env [] acc = Inr acc"
| "run_batches env (listBatch # rest) acc =
     (case runDozorTask env listBatch of
        Inl e \<Rightarrow> Inl e
      | Inr None \<Rightarrow> run_batches env rest acc
      | Inr (Some outDataDozor) \<Rightarrow>
          (case append_indicators env outDataDozor acc of
             Inl e \<Rightarrow> Inl e
           | Inr acc' \<Rightarrow> run_batches env rest acc'))"

definition run_imageQualityIndicators :: "run_env \<Rightarrow> int list list \<Rightarrow> error + pydict list" where
  "run_imageQualityIndicators env batches = run_batches env batches []"

text \<open>
  The records that \<^verbatim>\<open>parseOutput\<close> produces have the keys that \<^verbatim>\<open>run\<close> reads and a
  string under \<^verbatim>\<open>image\<close>; \<open>record_ok\<close> says so of a record, and that
  \<^verbatim>\<open>os.path.exists\<close> accepts its spot file when it has one.
\<close>

definition record_ok :: "run_env \<Rightarrow> pydict \<Rightarrow> bool" where
  "record_ok env r =
     (list_all (\<lambda>(target, key). r key \<noteq> None) indicator_keys
      \<and> (case r ''image'' of Some (PStr s) \<Rightarrow> True | _ \<Rightarrow> False)
      \<and> (case r ''spotFile'' of
            None \<Rightarrow> True
          | Some f \<Rightarrow> (case path_exists env f of Inl e \<Rightarrow> False | Inr ex \<Rightarrow> True)))"

text \<open>
  What one batch adds to the result: nothing when its execution failed, else the
  indicators of its records, in order.
\<close>

definition batch_adds :: "run_env \<Rightarrow> int list \<Rightarrow> pydict list \<Rightarrow> bool" where
  "batch_adds env listBatch added =
     (case runDozorTask env listBatch of
        Inl e \<Rightarrow> False
      | Inr None \<Rightarrow> isFailure (execute_dozor env listBatch) \<and> added = []
      | Inr (Some recs) \<Rightarrow>
          \<not> isFailure (execute_dozor env listBatch)
          \<and> length recs = length (outDataImageDozor (execute_dozor env listBatch))
          \<and> map (imageQualityIndicators env) recs = map Inr added)"

section \<open>Example inputs\<close>

text \<open>
  The environment of the examples: the literal conversions, the image names of the
  template \<^verbatim>\<open>img_????.cbf\<close>, no working directory.
\<close>

definition example_env :: dozor_env where
  "example_env =
     \<lparr>py_int = int_literal, py_float = float_decimal,
      image_name = (\<lambda>n. Inr (''img_'' @ zero_pad 4 (dec_digits (nat n)) @ ''.cbf'')),
      spot_file = (\<lambda>n. None)\<rparr>"

definition example_inData :: inData where
  "example_inData =
     \<lparr>startingAngle = Some 10, firstImageNumber = 5, oscillationRange = 1, overlap = None\<rparr>"

text \<open>The six lines of the banner, empty here, that \<^verbatim>\<open>parseOutput\<close> skips.\<close>

definition example_banner :: string where
  "example_banner = [CHR 0x0A, CHR 0x0A, CHR 0x0A, CHR 0x0A, CHR 0x0A, CHR 0x0A]"

section \<open>Properties of the batch partition\<close>

lemma contiguous_snoc:
  "contiguous (xs @ [y]) = (contiguous xs \<and> (xs = [] \<or> y = last xs + 1))"
  by (induction xs rule: contiguous.induct) auto

lemma batch_inv_init: "batch_inv batchSize batch_init"
  by (simp add: batch_inv_def batch_init_def)

lemma batch_inv_step:
  assumes "1 \<le> batchSize" and "batch_inv batchSize s"
  shows "batch_inv batchSize (batch_step batchSize s imageNo)"
proof (cases "indexNextImageInBatch s")
  case None
  with assms show ?thesis
    by (auto simp: batch_inv_def batch_step_def batch_ok_def Let_def)
next
  case (Some nxt)
  with assms show ?thesis
    by (auto simp: batch_inv_def batch_step_def batch_ok_def contiguous_snoc)
qed

lemma batch_inv_loop:
  "1 \<le> batchSize \<Longrightarrow> batch_inv batchSize s \<Longrightarrow> batch_inv batchSize (batch_loop batchSize s xs)"
  unfolding batch_loop_def
  by (induction xs arbitrary: s) (simp_all add: batch_inv_step)

lemma batch_inv_finish:
  "batch_inv batchSize s \<Longrightarrow> \<forall>b \<in> set (batch_finish s). batch_ok batchSize b"
  by (auto simp: batch_inv_def batch_finish_def split: option.splits)

lemma batch_content_step:
  "batch_content (batch_step batchSize s imageNo) = batch_content s @ [imageNo]"
  by (simp add: batch_content_def batch_step_def Let_def split: option.splits)

lemma batch_content_loop:
  "batch_content (batch_loop batchSize s xs) = batch_content s @ xs"
  unfolding batch_loop_def
  by (induction xs arbitrary: s) (simp_all add: batch_content_step)

lemma concat_batch_finish: "concat (batch_finish s) = batch_content s"
  by (simp add: batch_finish_def batch_content_def)

lemma concat_singletons: "concat (map (\<lambda>batch. [batch]) b) = b"
  by (induction b) simp_all

lemma concat_split_batches: "concat (split_batches bs) = concat bs"
  unfolding split_batches_def
  by (induction bs) (simp_all add: concat_singletons)

lemma concat_createListOfBatches:
  "concat (createListOfBatches listImage batchSize hasOverlap) = sort listImage"
proof -
  have "batch_content (batch_loop batchSize batch_init (sort listImage)) = sort listImage"
    by (simp add: batch_content_loop) (simp add: batch_content_def batch_init_def)
  then show ?thesis
    by (simp add: createListOfBatches_def Let_def concat_split_batches concat_batch_finish)
qed

lemma length_split_batches: "\<forall>b \<in> set (split_batches bs). length b = 1"
  by (auto simp: split_batches_def)

lemma createListOfBatches_example:
  "createListOfBatches [5, 1, 2, 3, 7] 2 False = [[1, 2], [3], [5], [7]]"
  by (simp add: createListOfBatches_def batch_loop_def batch_step_def batch_init_def
      batch_finish_def Let_def)

lemma createListOfBatches_overlap_example:
  "createListOfBatches [5, 1, 2, 3, 7] 2 True = [[1], [2], [3], [5], [7]]"
  by (simp add: createListOfBatches_def batch_loop_def batch_step_def batch_init_def
      batch_finish_def split_batches_def Let_def)

text \<open>
  C1.  The batches cover the image numbers exactly: for the key set of an image
  dictionary, given as a duplicate-free list in any order, the multiset union of the
  returned batches is that set with every element once, for every batch size and for
  either value of the overlap flag; no element occurs twice, in one batch or in two.
  (The batches read in order are the sorted image numbers.)
\<close>

theorem createListOfBatches_partition:
  assumes "distinct listImage"
  shows "mset (concat (createListOfBatches listImage batchSize hasOverlap)) = mset_set (set listImage)
    \<and> distinct (concat (createListOfBatches listImage batchSize hasOverlap))
    \<and> concat (createListOfBatches listImage batchSize hasOverlap) = sort listImage"
  using assms by (simp add: concat_createListOfBatches mset_set_set)

theorem createListOfBatches_partition_witness:
  "distinct [5, 1, 2, 3, 7 :: int]
   \<and> createListOfBatches [5, 1, 2, 3, 7] 2 False = [[1, 2], [3], [5], [7]]
   \<and> mset (concat (createListOfBatches [5, 1, 2, 3, 7] 2 False)) = mset_set {1, 2, 3, 5, 7}"
  using createListOfBatches_partition [of "[5, 1, 2, 3, 7]" 2 False]
  by (simp add: createListOfBatches_example)

text \<open>
  C2.  With the overlap flag off and a batch size of at least one, every returned batch
  is a non-empty contiguous run (consecutive elements differ by exactly 1) of at most
  \<open>batchSize\<close> image numbers.
\<close>

theorem createListOfBatches_wellformed:
  assumes "1 \<le> batchSize"
  shows "\<forall>b \<in> set (createListOfBatches listImage batchSize False).
           b \<noteq> [] \<and> contiguous b \<and> int (length b) \<le> batchSize"
proof -
  have "batch_inv batchSize (batch_loop batchSize batch_init (sort listImage))"
    using assms by (rule batch_inv_loop) (rule batch_inv_init)
  then have "\<forall>b \<in> set (batch_finish (batch_loop batchSize batch_init (sort listImage))).
      batch_ok batchSize b"
    by (rule batch_inv_finish)
  then show ?thesis
    by (simp add: createListOfBatches_def batch_ok_def)
qed

theorem createListOfBatches_wellformed_witness:
  "(1::int) \<le> 2
   \<and> createListOfBatches [5, 1, 2, 3, 7] 2 False = [[1, 2], [3], [5], [7]]
   \<and> contiguous [1, 2] \<and> int (length [1, 2 :: int]) \<le> 2"
  using createListOfBatches_wellformed [of 2 "[5, 1, 2, 3, 7]"]
  by (simp add: createListOfBatches_example)

text \<open>
  C3.  With the overlap flag on, every returned batch has length exactly 1 and the
  elements of the singleton batches are exactly the given image numbers.
\<close>

theorem createListOfBatches_overlap:
  "(\<forall>b \<in> set (createListOfBatches listImage batchSize True). length b = 1)
   \<and> set (concat (createListOfBatches listImage batchSize True)) = set listImage"
proof -
  have "\<forall>b \<in> set (createListOfBatches listImage batchSize True). length b = 1"
    by (simp add: createListOfBatches_def length_split_batches)
  then show ?thesis
    by (simp add: concat_createListOfBatches)
qed

theorem createListOfBatches_overlap_witness:
  "createListOfBatches [5, 1, 2, 3, 7] 2 True = [[1], [2], [3], [5], [7]]
   \<and> length [5 :: int] = 1
   \<and> set (concat (createListOfBatches [5, 1, 2, 3, 7] 2 True)) = {1, 2, 3, 5, 7}"
  using createListOfBatches_overlap [of "[5, 1, 2, 3, 7]" 2]
  by (auto simp: createListOfBatches_overlap_example)

section \<open>Evaluation of the examples\<close>

lemma replicate_numeral: "replicate (numeral k) x = x # replicate (pred_numeral k) x"
  by (simp add: numeral_eq_Suc)

lemmas str_eval = shlex_split_def shlex_whitespace_def shlex_quote_def emit_token_def
  strip_def isspace_def is_decimal_def digit_val_def int_literal_def float_decimal_def
  unsigned_decimal_def isdigit_def startswith_def replace_char_def split_ws_def

lemma dec_digits_small: "n < 10 \<Longrightarrow> dec_digits n = [''0123456789'' ! n]"
  by (simp add: dec_digits.simps)

lemma example_env_fields:
  "py_int example_env = int_literal" "py_float example_env = float_decimal"
  "spot_file example_env n = None"
  "image_name example_env 3 = Inr ''img_0003.cbf''"
  "image_name example_env 4 = Inr ''img_0004.cbf''"
  by (simp_all add: example_env_def zero_pad_def dec_digits_small replicate_numeral)

lemmas row_eval = parse_row_def row_header_def image_angle_def example_env_fields
  example_inData_def parse_fields_def layout_of_def short_layout_def extended_layout_def
  conv_value_def parseDouble_def attach_spot_file_def

lemma example_header:
  "\<exists>h. row_header example_env example_inData ''3'' = Inr h"
  by (simp add: row_header_def image_angle_def example_env_fields example_inData_def str_eval)

lemma example_conversions:
  "py_int example_env ''12'' = Some 12" "py_float example_env = float_decimal"
  by (simp_all add: example_env_fields str_eval)

lemma example_floats:
  "float_decimal ''55.5'' = Some (111 / 2)" "float_decimal ''0.25'' = Some (1 / 4)"
  "float_decimal ''2.5'' = Some (5 / 2)" "float_decimal ''-1.0'' = Some (- 1)"
  "float_decimal ''1.0'' = Some 1" "float_decimal ''7'' = Some 7" "float_decimal ''8'' = Some 8"
  "float_decimal ''0.75'' = Some (3 / 4)" "float_decimal ''0.5'' = Some (1 / 2)"
  "float_decimal ''1.5'' = Some (3 / 2)" "float_decimal ''3.25'' = Some (13 / 4)"
  "float_decimal ''2.0'' = Some 2" "float_decimal ''3.0'' = Some 3"
  "float_decimal ''abc'' = None" "float_decimal ''x'' = None"
  by (simp_all add: str_eval)

section \<open>Properties of the starting angle\<close>






section \<open>Properties of the log decoder\<close>

lemma row_header_Inr:
  assumes "row_header env d first = Inr hdr"
  shows "\<exists>n a s. py_int env first = Some n \<and> image_angle d n = Inr a \<and> image_name env n = Inr s \<and>
           hdr = [''number'' \<mapsto> PInt n, ''image'' \<mapsto> PStr s,
                  ''angle'' \<mapsto> PFloat a, ''spotsNumOf'' \<mapsto> PNone,
                  ''spotsIntAver'' \<mapsto> PNone, ''spotsResolution'' \<mapsto> PNone,
                  ''mainScore'' \<mapsto> PNone, ''spotScore'' \<mapsto> PNone,
                  ''visibleResolution'' \<mapsto> PInt 40]"
  using assms by (auto simp: row_header_def split: option.splits sum.splits)

lemma attach_spot_file_other: "k \<noteq> ''spotFile'' \<Longrightarrow> attach_spot_file env d k = d k"
  by (simp add: attach_spot_file_def split: option.splits pyval.splits)

lemma parse_row_Inr:
  assumes "parse_row env d l = Inr r"
  shows "\<exists>hdr. row_header env d (hd l) = Inr hdr \<and>
           r = attach_spot_file env (parse_fields env l hdr)"
  using assms by (auto simp: parse_row_def split: sum.splits)

lemma assign_short:
  assumes "5 < length l" and "py_int env (l ! 1) = Some n"
  shows "assign_fields env l short_layout d =
     (let d4 = d(''spotsNumOf'' \<mapsto> PInt n, ''spotsIntAver'' \<mapsto> parseDouble (py_float env) (l ! 2),
                 ''spotsRFactor'' \<mapsto> parseDouble (py_float env) (l ! 3),
                 ''spotsResolution'' \<mapsto> parseDouble (py_float env) (l ! 4))
      in if length l \<le> 8 then d4
         else if length l \<le> 9 then d4(''mainScore'' \<mapsto> parseDouble (py_float env) (l ! 8))
         else if length l \<le> 10 then d4(''mainScore'' \<mapsto> parseDouble (py_float env) (l ! 8),
                ''spotScore'' \<mapsto> parseDouble (py_float env) (l ! 9))
         else d4(''mainScore'' \<mapsto> parseDouble (py_float env) (l ! 8),
                ''spotScore'' \<mapsto> parseDouble (py_float env) (l ! 9),
                ''visibleResolution'' \<mapsto> parseDouble (py_float env) (l ! 10)))"
  using assms by (simp add: short_layout_def conv_value_def Let_def)

lemma assign_extended:
  assumes "11 \<le> length l" and "py_int env (l ! 1) = Some n"
  shows "assign_fields env l extended_layout d =
     (let d10 = d(''spotsNumOf'' \<mapsto> PInt n, ''spotsIntAver'' \<mapsto> parseDouble (py_float env) (l ! 2),
                 ''spotsRfactor'' \<mapsto> parseDouble (py_float env) (l ! 3),
                 ''spotsResolution'' \<mapsto> parseDouble (py_float env) (l ! 4),
                 ''powderWilsonScale'' \<mapsto> parseDouble (py_float env) (l ! 5),
                 ''powderWilsonBfactor'' \<mapsto> parseDouble (py_float env) (l ! 6),
                 ''powderWilsonResolution'' \<mapsto> parseDouble (py_float env) (l ! 7),
                 ''powderWilsonCorrelation'' \<mapsto> parseDouble (py_float env) (l ! 8),
                 ''powderWilsonRfactor'' \<mapsto> parseDouble (py_float env) (l ! 9),
                 ''mainScore'' \<mapsto> parseDouble (py_float env) (l ! 10))
      in if length l \<le> 11 then d10
         else if length l \<le> 12 then d10(''spotScore'' \<mapsto> parseDouble (py_float env) (l ! 11))
         else d10(''spotScore'' \<mapsto> parseDouble (py_float env) (l ! 11),
                ''visibleResolution'' \<mapsto> parseDouble (py_float env) (l ! 12)))"
  using assms by (simp add: extended_layout_def conv_value_def Let_def)

text \<open>
  C5 (amended).  For a row of at least six tokens whose spot count (token 1) is an
  integer literal, the layout depends only on token 5 and the number of tokens.  If
  token 5 starts with \<^verbatim>\<open>-\<close> or the row has fewer than 11 tokens, the short layout is
  used: spot count, average intensity, R-factor and resolution come from tokens 1 to 4,
  main score, spot score and visible resolution from tokens 8, 9 and 10 as far as the
  row has them (a missing token leaves main score and spot score at \<^verbatim>\<open>None\<close> and
  visible resolution at the default 40), and no powder-Wilson key is set.  Otherwise
  the extended layout is used: tokens 1 to 4 as before, the five powder-Wilson
  statistics from tokens 5 to 9, main score from token 10, spot score and visible
  resolution from tokens 11 and 12 as far as the row has them.
\<close>

theorem layout_selection:
  assumes "parse_row env d l = Inr r" and "5 < length l" and "py_int env (l ! 1) = Some n"
  shows
    "(startswith (l ! 5) ''-'' \<or> length l < 11 \<longrightarrow>
        r ''spotsNumOf'' = Some (PInt n)
      \<and> r ''spotsIntAver'' = Some (parseDouble (py_float env) (l ! 2))
      \<and> r ''spotsRFactor'' = Some (parseDouble (py_float env) (l ! 3))
      \<and> r ''spotsResolution'' = Some (parseDouble (py_float env) (l ! 4))
      \<and> r ''mainScore'' = Some (if 8 < length l then parseDouble (py_float env) (l ! 8) else PNone)
      \<and> r ''spotScore'' = Some (if 9 < length l then parseDouble (py_float env) (l ! 9) else PNone)
      \<and> r ''visibleResolution''
          = Some (if 10 < length l then parseDouble (py_float env) (l ! 10) else PInt 40)
      \<and> r ''powderWilsonScale'' = None \<and> r ''powderWilsonBfactor'' = None
      \<and> r ''powderWilsonResolution'' = None \<and> r ''powderWilsonCorrelation'' = None
      \<and> r ''powderWilsonRfactor'' = None)
   \<and> (\<not> (startswith (l ! 5) ''-'' \<or> length l < 11) \<longrightarrow>
        r ''spotsNumOf'' = Some (PInt n)
      \<and> r ''spotsIntAver'' = Some (parseDouble (py_float env) (l ! 2))
      \<and> r ''spotsRfactor'' = Some (parseDouble (py_float env) (l ! 3))
      \<and> r ''spotsResolution'' = Some (parseDouble (py_float env) (l ! 4))
      \<and> r ''powderWilsonScale'' = Some (parseDouble (py_float env) (l ! 5))
      \<and> r ''powderWilsonBfactor'' = Some (parseDouble (py_float env) (l ! 6))
      \<and> r ''powderWilsonResolution'' = Some (parseDouble (py_float env) (l ! 7))
      \<and> r ''powderWilsonCorrelation'' = Some (parseDouble (py_float env) (l ! 8))
      \<and> r ''powderWilsonRfactor'' = Some (parseDouble (py_float env) (l ! 9))
      \<and> r ''mainScore'' = Some (parseDouble (py_float env) (l ! 10))
      \<and> r ''spotScore'' = Some (if 11 < length l then parseDouble (py_float env) (l ! 11) else PNone)
      \<and> r ''visibleResolution''
          = Some (if 12 < length l then parseDouble (py_float env) (l ! 12) else PInt 40))"
proof -
  obtain hdr where hdr: "row_header env d (hd l) = Inr hdr"
    and r: "r = attach_spot_file env (parse_fields env l hdr)"
    using parse_row_Inr [OF assms(1)] by blast
  obtain m a s where h: "hdr = [''number'' \<mapsto> PInt m, ''image'' \<mapsto> PStr s,
                  ''angle'' \<mapsto> PFloat a, ''spotsNumOf'' \<mapsto> PNone,
                  ''spotsIntAver'' \<mapsto> PNone, ''spotsResolution'' \<mapsto> PNone,
                  ''mainScore'' \<mapsto> PNone, ''spotScore'' \<mapsto> PNone,
                  ''visibleResolution'' \<mapsto> PInt 40]"
    using row_header_Inr [OF hdr] by blast
  show ?thesis
  proof (cases "startswith (l ! 5) ''-'' \<or> length l < 11")
    case True
    then have "parse_fields env l hdr = assign_fields env l short_layout hdr"
      using assms(2) by (simp add: parse_fields_def layout_of_def)
    then show ?thesis
      using True assms(2) 
      by (simp add: r attach_spot_file_other assign_short [OF assms(2,3)] Let_def h)
  next
    case False
    then have len: "11 \<le> length l" by simp
    from False have "parse_fields env l hdr = assign_fields env l extended_layout hdr"
      using assms(2) by (simp add: parse_fields_def layout_of_def)
    then show ?thesis
      using False
      by (simp add: r attach_spot_file_other assign_extended [OF len assms(3)] Let_def h)
  qed
qed

lemma assign_fields_other:
  "k \<notin> fst ` set lay \<Longrightarrow> assign_fields env l lay d k = d k"
  by (induction env l lay d rule: assign_fields.induct) (auto split: option.splits)

lemma assign_fields_all:
  assumes "\<forall>(k, c, j) \<in> set lay. j < length l \<and> conv_value env c (l ! j) \<noteq> None"
    and "distinct (map fst lay)" and "(key, c, i) \<in> set lay"
  shows "assign_fields env l lay d key = conv_value env c (l ! i)"
  using assms
proof (induction lay arbitrary: d)
  case Nil
  then show ?case by simp
next
  case (Cons x rest)
  obtain k c' j where x: "x = (k, c', j)" by (cases x)
  from Cons.prems(1) x obtain v where v: "conv_value env c' (l ! j) = Some v" and j: "j < length l"
    by auto
  have step: "assign_fields env l (x # rest) d = assign_fields env l rest (d(k \<mapsto> v))"
    using x v j by simp
  show ?case
  proof (cases "(key, c, i) = x")
    case True
    then have "key \<notin> fst ` set rest" using Cons.prems(2) x by auto
    then have "assign_fields env l rest (d(k \<mapsto> v)) key = (d(k \<mapsto> v)) key"
      by (rule assign_fields_other)
    then show ?thesis using True x v step by simp
  next
    case False
    then have "(key, c, i) \<in> set rest" using Cons.prems(3) by auto
    moreover have "\<forall>(k, c, j) \<in> set rest. j < length l \<and> conv_value env c (l ! j) \<noteq> None"
      using Cons.prems(1) by simp
    moreover have "distinct (map fst rest)" using Cons.prems(2) by simp
    ultimately have "assign_fields env l rest (d(k \<mapsto> v)) key = conv_value env c (l ! i)"
      by (intro Cons.IH)
    then show ?thesis using step by simp
  qed
qed

lemma distinct_layouts:
  "distinct (map fst short_layout)" "distinct (map fst extended_layout)"
  by (simp_all add: short_layout_def extended_layout_def)

lemma distinct_layout_of: "distinct (map fst (layout_of l))"
  by (simp add: layout_of_def distinct_layouts)

lemma layout_of_cases: "layout_of l = short_layout \<or> layout_of l = extended_layout"
  by (simp add: layout_of_def)

lemma spotFile_not_in_layout: "''spotFile'' \<notin> fst ` set (layout_of l)"
  using layout_of_cases [of l] by (auto simp: short_layout_def extended_layout_def)

lemma first_in_layout: "(''spotsNumOf'', ConvInt, 1) \<in> set (layout_of l)"
  using layout_of_cases [of l] by (auto simp: short_layout_def extended_layout_def)

lemma ints_of_layout: "(k, ConvInt, j) \<in> set (layout_of l) \<Longrightarrow> j = 1"
  using layout_of_cases [of l] by (auto simp: short_layout_def extended_layout_def)

lemma parse_row_of_header:
  "row_header env d (hd l) = Inr h \<Longrightarrow>
   parse_row env d l = Inr (attach_spot_file env (parse_fields env l h))"
  by (simp add: parse_row_def)

text \<open>A row with all the tokens of its layout and an integer spot count: every field
  of the layout holds the conversion of its own token.\<close>

lemma parse_fields_complete:
  assumes "5 < length l" and "\<forall>(k, c, j) \<in> set (layout_of l). j < length l"
    and "py_int env (l ! 1) = Some n" and "(key, c, i) \<in> set (layout_of l)"
  shows "attach_spot_file env (parse_fields env l h) key = conv_value env c (l ! i)"
proof -
  have ok: "\<forall>(k, c, j) \<in> set (layout_of l). j < length l \<and> conv_value env c (l ! j) \<noteq> None"
  proof (clarify, intro conjI)
    fix k c j assume m: "(k, c, j) \<in> set (layout_of l)"
    then show "j < length l" using assms(2) by auto
    show "conv_value env c (l ! j) \<noteq> None"
    proof (cases c)
      case ConvInt
      then have "j = 1" using m ints_of_layout by blast
      then show ?thesis using ConvInt assms(3) by (simp add: conv_value_def)
    next
      case ConvDouble
      then show ?thesis by (simp add: conv_value_def)
    qed
  qed
  have "key \<noteq> ''spotFile''" using assms(4) spotFile_not_in_layout [of l] by force
  then have "attach_spot_file env (parse_fields env l h) key = parse_fields env l h key"
    by (rule attach_spot_file_other)
  also have "\<dots> = assign_fields env l (layout_of l) h key"
    using assms(1) by (simp add: parse_fields_def)
  also have "\<dots> = conv_value env c (l ! i)"
    using ok distinct_layout_of assms(4) by (rule assign_fields_all)
  finally show ?thesis .
qed

lemma append_result_assoc:
  "append_result (append_result a b) c = append_result a (append_result b c)"
  by (simp add: append_result_def split: option.splits)

lemma append_result_empty: "append_result empty_result r = r"
  by (simp add: append_result_def empty_result_def split: option.splits)

lemma parse_line_from:
  "parse_line env d res line =
     (case parse_line env d empty_result line of
        Inl e \<Rightarrow> Inl e
      | Inr r \<Rightarrow> Inr (append_result res r))"
proof (cases "shlex_split (replace_char (CHR ''|'') (CHR '' '') line)")
  case None
  then show ?thesis by (simp add: parse_line_def)
next
  case (Some l)
  show ?thesis
  proof (cases "l \<noteq> [] \<and> isdigit (hd l)")
    case True
    then show ?thesis
      using Some by (cases "parse_row env d l")
        (simp_all add: parse_line_def append_result_def empty_result_def)
  next
    case False
    then show ?thesis
      using Some by (cases "half_dose_time line")
        (auto simp: parse_line_def append_result_def empty_result_def)
  qed
qed

lemma parse_lines_from:
  "parse_lines env d res ls =
     (case parse_lines env d empty_result ls of
        Inl e \<Rightarrow> Inl e
      | Inr r \<Rightarrow> Inr (append_result res r))"
proof (induction ls arbitrary: res)
  case Nil
  show ?case by (simp add: append_result_def empty_result_def)
next
  case (Cons line ls)
  show ?case
  proof (cases "parse_line env d empty_result line")
    case (Inl e)
    then show ?thesis using parse_line_from [of env d res line] by simp
  next
    case (Inr r1)
    then have 1: "parse_line env d res line = Inr (append_result res r1)"
      using parse_line_from [of env d res line] by simp
    show ?thesis
      using Inr 1 Cons.IH [of "append_result res r1"] Cons.IH [of r1]
      by (simp add: append_result_assoc split: sum.splits)
  qed
qed

text \<open>
  C5 at an eleven-token row whose token 5 starts with \<^verbatim>\<open>-\<close> (short layout, visible
  resolution from token 10) and at a thirteen-token row whose token 5 does not
  (extended layout).
\<close>

theorem layout_selection_witness:
  "(\<exists>r. parse_row example_env example_inData
          [''3'', ''12'', ''55.5'', ''0.25'', ''2.5'', ''-1.0'', ''7'', ''8'', ''0.75'', ''0.5'', ''1.5'']
          = Inr r
        \<and> r ''spotsNumOf'' = Some (PInt 12) \<and> r ''mainScore'' = Some (PFloat (3 / 4))
        \<and> r ''visibleResolution'' = Some (PFloat (3 / 2))
        \<and> r ''powderWilsonScale'' = None)
   \<and> (\<exists>r. parse_row example_env example_inData
          [''3'', ''12'', ''55.5'', ''0.25'', ''2.5'', ''1.0'', ''7'', ''8'', ''0.75'', ''0.5'', ''1.5'',
           ''2.5'', ''3.25'']
          = Inr r
        \<and> r ''spotsNumOf'' = Some (PInt 12) \<and> r ''powderWilsonScale'' = Some (PFloat 1)
        \<and> r ''mainScore'' = Some (PFloat (3 / 2))
        \<and> r ''visibleResolution'' = Some (PFloat (13 / 4)))"
proof -
  let ?s = "[''3'', ''12'', ''55.5'', ''0.25'', ''2.5'', ''-1.0'', ''7'', ''8'', ''0.75'', ''0.5'', ''1.5'']"
  let ?e = "[''3'', ''12'', ''55.5'', ''0.25'', ''2.5'', ''1.0'', ''7'', ''8'', ''0.75'', ''0.5'', ''1.5'',
           ''2.5'', ''3.25'']"
  obtain h where h: "row_header example_env example_inData ''3'' = Inr h"
    using example_header by blast
  note cnt = example_conversions(1) and fl = example_conversions(2)
  have s: "parse_row example_env example_inData ?s
      = Inr (attach_spot_file example_env (parse_fields example_env ?s h))"
    using h by (intro parse_row_of_header) simp
  have e: "parse_row example_env example_inData ?e
      = Inr (attach_spot_file example_env (parse_fields example_env ?e h))"
    using h by (intro parse_row_of_header) simp
  have "5 < length ?s" and "py_int example_env (?s ! 1) = Some 12" using cnt by simp_all
  from layout_selection [OF s this]
  have 1: "\<exists>r. parse_row example_env example_inData ?s = Inr r
        \<and> r ''spotsNumOf'' = Some (PInt 12) \<and> r ''mainScore'' = Some (PFloat (3 / 4))
        \<and> r ''visibleResolution'' = Some (PFloat (3 / 2))
        \<and> r ''powderWilsonScale'' = None"
    using s by (simp add: fl parseDouble_def str_eval)
  have "5 < length ?e" and "py_int example_env (?e ! 1) = Some 12" using cnt by simp_all
  from layout_selection [OF e this]
  have 2: "\<exists>r. parse_row example_env example_inData ?e = Inr r
        \<and> r ''spotsNumOf'' = Some (PInt 12) \<and> r ''powderWilsonScale'' = Some (PFloat 1)
        \<and> r ''mainScore'' = Some (PFloat (3 / 2))
        \<and> r ''visibleResolution'' = Some (PFloat (13 / 4))"
    using e by (simp add: fl parseDouble_def str_eval)
  from 1 2 show ?thesis by blast
qed

text \<open>
  The statement of C5 as given fails on rows that are shorter than their layout.  A
  five-token row has fewer than 11 tokens, and its spot count 12 is not stored: reading
  token 5 raises, and the exception is caught.  A ten-token row whose token 5 starts
  with \<^verbatim>\<open>-\<close> gets its spot count and spot score, and its visible resolution stays at
  the default 40: there is no token 10.
\<close>

theorem layout_selection_counterexample:
  "map_sum id (\<lambda>r. r ''spotsNumOf'')
     (parse_row example_env example_inData [''3'', ''12'', ''55.5'', ''0.25'', ''2.5''])
     = Inr (Some PNone)
   \<and> map_sum id (\<lambda>r. map r [''spotsNumOf'', ''spotScore'', ''visibleResolution''])
     (parse_row example_env example_inData
        [''3'', ''12'', ''55.5'', ''0.25'', ''2.5'', ''-1.0'', ''7'', ''8'', ''0.75'', ''0.5''])
     = Inr [Some (PInt 12), Some (PFloat (1 / 2)), Some (PInt 40)]"
  by (simp add: row_eval str_eval)

text \<open>
  C6 (amended).  Take a row that has all the tokens of its layout and an integer spot
  count.  If the token of one floating-point field is not a float literal and the
  tokens of the other floating-point fields are, the record of the row has \<^verbatim>\<open>None\<close> in
  that field, the spot count, and in every other floating-point field the value of its
  own token; and the records of the following lines are what these lines decode to on
  their own.
\<close>

theorem decoder_tolerance:
  assumes tok: "shlex_split (replace_char (CHR ''|'') (CHR '' '') line) = Some l"
    and row: "isdigit (hd l)"
    and hdr: "row_header env d (hd l) = Inr h"
    and len: "5 < length l"
    and full: "\<forall>(k, c, j) \<in> set (layout_of l). j < length l"
    and cnt: "py_int env (l ! 1) = Some n"
    and bad: "(key, ConvDouble, i) \<in> set (layout_of l)"
    and badv: "py_float env (l ! i) = None"
    and good: "\<forall>(k, c, j) \<in> set (layout_of l). c = ConvDouble \<and> j \<noteq> i \<longrightarrow> py_float env (l ! j) \<noteq> None"
    and rest: "parse_lines env d empty_result rest = Inr after"
  shows "\<exists>r out. parse_lines env d res (line # rest) = Inr out
        \<and> imageDozor out = imageDozor res @ [r] @ imageDozor after
        \<and> r key = Some PNone
        \<and> r ''spotsNumOf'' = Some (PInt n)
        \<and> (\<forall>(k, c, j) \<in> set (layout_of l). c = ConvDouble \<and> j \<noteq> i \<longrightarrow>
              (\<exists>x. py_float env (l ! j) = Some x \<and> r k = Some (PFloat x)))"
proof -
  let ?r = "attach_spot_file env (parse_fields env l h)"
  have field: "?r k = conv_value env c (l ! j)" if "(k, c, j) \<in> set (layout_of l)" for k c j
    using len full cnt that by (rule parse_fields_complete)
  have pr: "parse_row env d l = Inr ?r"
    using hdr by (rule parse_row_of_header)
  have ne: "l \<noteq> []" using len by auto
  have pl: "parse_line env d res line = Inr (res\<lparr>imageDozor := imageDozor res @ [?r]\<rparr>)"
    using tok row ne pr by (simp add: parse_line_def)
  have "parse_lines env d res (line # rest)
      = parse_lines env d (res\<lparr>imageDozor := imageDozor res @ [?r]\<rparr>) rest"
    using pl by simp
  also have "\<dots> = Inr (append_result (res\<lparr>imageDozor := imageDozor res @ [?r]\<rparr>) after)"
    using rest parse_lines_from [of env d "res\<lparr>imageDozor := imageDozor res @ [?r]\<rparr>" rest]
    by simp
  finally have out: "parse_lines env d res (line # rest)
      = Inr (append_result (res\<lparr>imageDozor := imageDozor res @ [?r]\<rparr>) after)" .
  have recs: "imageDozor (append_result (res\<lparr>imageDozor := imageDozor res @ [?r]\<rparr>) after)
      = imageDozor res @ [?r] @ imageDozor after"
    by (simp add: append_result_def)
  have k1: "?r key = Some PNone"
    using field [OF bad] badv by (simp add: conv_value_def parseDouble_def)
  have k2: "?r ''spotsNumOf'' = Some (PInt n)"
    using field [OF first_in_layout] cnt by (simp add: conv_value_def)
  have k3: "\<forall>(k, c, j) \<in> set (layout_of l). c = ConvDouble \<and> j \<noteq> i \<longrightarrow>
              (\<exists>x. py_float env (l ! j) = Some x \<and> ?r k = Some (PFloat x))"
  proof (clarify)
    fix k c j assume m: "(k, ConvDouble, j) \<in> set (layout_of l)" and ji: "j \<noteq> i"
    then obtain x where x: "py_float env (l ! j) = Some x" using good by fastforce
    then have "?r k = Some (PFloat x)"
      using field [OF m] by (simp add: conv_value_def parseDouble_def)
    with x show "\<exists>x. py_float env (l ! j) = Some x \<and> ?r k = Some (PFloat x)" by blast
  qed
  from out recs k1 k2 k3 show ?thesis by blast
qed

lemma example_tokens:
  "shlex_split (replace_char (CHR ''|'') (CHR '' '') ''3 | 12 55.5 abc 2.5 -1.0 7 8 0.75 0.5 1.5'')
   = Some [''3'', ''12'', ''55.5'', ''abc'', ''2.5'', ''-1.0'', ''7'', ''8'', ''0.75'', ''0.5'', ''1.5'']"
  by (simp add: str_eval)

lemma example_rest:
  "\<exists>after r2. parse_lines example_env example_inData empty_result
       [''4 | 7 1.5 0.5 2.5 -1.0 7 8 0.25 0.5 2.0''] = Inr after
     \<and> imageDozor after = [r2] \<and> r2 ''spotsIntAver'' = Some (PFloat (3 / 2))"
  by (simp add: parse_line_def row_eval str_eval empty_result_def)

theorem decoder_tolerance_witness:
  "\<exists>r r2 out. parse_lines example_env example_inData empty_result
         [''3 | 12 55.5 abc 2.5 -1.0 7 8 0.75 0.5 1.5'',
          ''4 | 7 1.5 0.5 2.5 -1.0 7 8 0.25 0.5 2.0''] = Inr out
     \<and> imageDozor out = [r, r2]
     \<and> r ''spotsRFactor'' = Some PNone
     \<and> r ''spotsNumOf'' = Some (PInt 12)
     \<and> r ''spotsIntAver'' = Some (PFloat (111 / 2))
     \<and> r ''visibleResolution'' = Some (PFloat (3 / 2))
     \<and> r2 ''spotsIntAver'' = Some (PFloat (3 / 2))"
proof -
  let ?l = "[''3'', ''12'', ''55.5'', ''abc'', ''2.5'', ''-1.0'', ''7'', ''8'', ''0.75'', ''0.5'', ''1.5'']"
  obtain h where h: "row_header example_env example_inData (hd ?l) = Inr h"
    using example_header by auto
  obtain after r2 where after: "parse_lines example_env example_inData empty_result
       [''4 | 7 1.5 0.5 2.5 -1.0 7 8 0.25 0.5 2.0''] = Inr after"
    and r2: "imageDozor after = [r2]" "r2 ''spotsIntAver'' = Some (PFloat (3 / 2))"
    using example_rest by blast
  have lay: "layout_of ?l = short_layout" by (simp add: layout_of_def str_eval)
  have 1: "isdigit (hd ?l)" by (simp add: str_eval)
  have 2: "5 < length ?l" by simp
  have 3: "\<forall>(k, c, j) \<in> set (layout_of ?l). j < length ?l"
    by (simp add: lay short_layout_def)
  have 4: "py_int example_env (?l ! 1) = Some 12" by (simp add: example_conversions)
  have 5: "(''spotsRFactor'', ConvDouble, 3) \<in> set (layout_of ?l)"
    by (simp add: lay short_layout_def)
  have 6: "py_float example_env (?l ! 3) = None"
    by (simp add: example_conversions example_floats)
  have 7: "\<forall>(k, c, j) \<in> set (layout_of ?l). c = ConvDouble \<and> j \<noteq> 3 \<longrightarrow>
      py_float example_env (?l ! j) \<noteq> None"
    by (simp add: lay short_layout_def example_conversions example_floats del: not_None_eq)
  from decoder_tolerance [OF example_tokens 1 h 2 3 4 5 6 7 after, of empty_result]
  obtain r out where out: "parse_lines example_env example_inData empty_result
         [''3 | 12 55.5 abc 2.5 -1.0 7 8 0.75 0.5 1.5'',
          ''4 | 7 1.5 0.5 2.5 -1.0 7 8 0.25 0.5 2.0''] = Inr out"
    and recs: "imageDozor out = imageDozor empty_result @ [r] @ imageDozor after"
    and f1: "r ''spotsRFactor'' = Some PNone" and f2: "r ''spotsNumOf'' = Some (PInt 12)"
    and others: "\<forall>(k, c, j) \<in> set (layout_of ?l). c = ConvDouble \<and> j \<noteq> 3 \<longrightarrow>
              (\<exists>x. py_float example_env (?l ! j) = Some x \<and> r k = Some (PFloat x))"
    by blast
  from others have "r ''spotsIntAver'' = Some (PFloat (111 / 2))"
    and "r ''visibleResolution'' = Some (PFloat (3 / 2))"
    by (auto simp: lay short_layout_def example_conversions example_floats)
  with out recs f1 f2 r2 show ?thesis
    by (simp add: empty_result_def)
qed

text \<open>
  The statement of C6 as given fails when the token that does not parse is the spot
  count: \<^verbatim>\<open>int\<close> raises inside the \<^verbatim>\<open>try\<close> block, the block is left, and the fields
  after the spot count keep their initial values although their tokens are float
  literals.
\<close>

theorem decoder_tolerance_counterexample:
  "map_sum id (\<lambda>res. map (\<lambda>r. map r [''spotsNumOf'', ''spotsIntAver'', ''mainScore'',
                                          ''visibleResolution'']) (imageDozor res))
     (parseOutput example_env example_inData
        (example_banner @ ''3 | x 55.5 0.25 2.5 -1.0 7 8 0.75 0.5 1.5''))
     = Inr [[Some PNone, Some PNone, Some PNone, Some (PInt 40)]]
   \<and> int_literal ''x'' = None
   \<and> float_decimal ''55.5'' = Some (111 / 2)
   \<and> float_decimal ''0.75'' = Some (3 / 4)
   \<and> float_decimal ''1.5'' = Some (3 / 2)"
  by (simp add: parseOutput_def example_banner_def parse_line_def row_eval str_eval)

section \<open>When the log decoder returns\<close>






text \<open>A line without quotation marks and backslashes always tokenizes.\<close>

lemma read_tokens_plain:
  assumes "\<forall>c \<in> set s. \<not> shlex_quote c \<and> c \<noteq> CHR 0x5C"
  shows "(\<exists>ts. read_tokens InSpace token quoted s = Some ts)
       \<and> (\<exists>ts. read_tokens InWord token quoted s = Some ts)"
  using assms
proof (induction s arbitrary: token quoted)
  case Nil
  show ?case by simp
next
  case (Cons c cs)
  have c: "\<not> shlex_quote c" "c \<noteq> CHR 0x5C" using Cons.prems by simp_all
  have ih: "\<exists>ts. read_tokens InSpace t q cs = Some ts" "\<exists>ts. read_tokens InWord t q cs = Some ts"
    for t q using Cons.IH [of t q] Cons.prems by simp_all
  have 1: "\<exists>ts. read_tokens InSpace token quoted (c # cs) = Some ts"
  proof (cases "shlex_whitespace c")
    case True
    then show ?thesis
      using ih(1) [of "[]" False] ih(1) [of token quoted] by (cases "token \<noteq> [] \<or> quoted") auto
  next
    case False
    then show ?thesis using c ih(2) [of "[c]" quoted] by simp
  qed
  have 2: "\<exists>ts. read_tokens InWord token quoted (c # cs) = Some ts"
  proof (cases "shlex_whitespace c")
    case True
    then show ?thesis
      using ih(1) [of "[]" False] ih(1) [of token quoted] by (cases "token \<noteq> [] \<or> quoted") auto
  next
    case False
    then show ?thesis using c ih(2) [of "token @ [c]" quoted] by simp
  qed
  from 1 2 show ?case by blast
qed

lemma shlex_split_plain:
  "\<forall>c \<in> set s. c \<noteq> CHR 0x27 \<and> c \<noteq> CHR 0x22 \<and> c \<noteq> CHR 0x5C \<Longrightarrow> \<exists>ts. shlex_split s = Some ts"
  unfolding shlex_split_def using read_tokens_plain [of s "[]" False]
  by (simp add: shlex_quote_def)




lemma example_h_line: "half_dose_time ''halfDoseTime = 12.5 s'' = Inr ''12.5''"
  by (simp add: half_dose_time_def str_eval)



end
